theory Spec2Isabelle
  imports Main
begin

section \<open>Data model of the session coordinator (src/App.tsx)\<close>

text \<open>
  The enums \<open>AppStatus\<close> and \<open>SearchSource\<close> and the interface \<open>ChatMessage\<close> are
  declared in \<open>types.ts\<close>; their members are taken from the uses in \<open>App.tsx\<close>.
\<close>

datatype AppStatus = Initializing | Chatting | Uploading | Error

datatype SearchSource = FileSearch | GoogleSearch

datatype Role = User | Model

type_synonym GroundingChunk = string

record ChatMessage =
  role :: Role
  parts :: "string list"
  groundingChunks :: "GroundingChunk list option"

text \<open>What \<open>fileSearch\<close> and \<open>googleSearch\<close> resolve to: \<open>result.text\<close> and
  \<open>result.groundingChunks\<close>.\<close>

datatype QueryResult = QueryResult (resultText: string) (resultGroundingChunks: "GroundingChunk list option")

text \<open>A browser \<open>File\<close>: only its \<open>name\<close> is read by the coordinator.\<close>

record File =
  name :: string
  bytes :: string

text \<open>The object held in \<open>uploadProgress\<close>.\<close>

record Progress =
  current :: nat
  total :: nat
  message :: "string option"
  fileName :: "string option"

text \<open>
  A value caught by \<open>catch (err)\<close>: either an instance of \<open>Error\<close> (always truthy,
  with its \<open>message\<close>), or any other value, of which the code reads its truthiness
  and \<open>String(err)\<close>.
\<close>

datatype Thrown = ErrorInstance string | OtherValue bool string

fun truthy :: "Thrown \<Rightarrow> bool" where
  "truthy (ErrorInstance m) = True"
| "truthy (OtherValue t s) = t"

fun errText :: "Thrown \<Rightarrow> string" where
  "errText (ErrorInstance m) = m"
| "errText (OtherValue t s) = s"

text \<open>The calls made on \<open>geminiService\<close>, in the order they are issued.\<close>

datatype RemoteCall =
    Initialize
  | CreateRagStore string
  | UploadToRagStore string File
  | GenerateExampleQuestions string
  | DeleteRagStore string
  | FileSearchCall string string
  | GoogleSearchCall string
  | GenerateGoogleSearchQuestions

text \<open>
  The component state of \<open>App\<close>: one field for each \<open>useState\<close>. The last two fields
  record the effects of the handlers outside the component: the calls issued on the
  remote service and the lines written by \<open>console.error\<close>.
\<close>

record AppState =
  status :: AppStatus
  searchSource :: SearchSource
  error :: "string option"
  isUploadModalOpen :: bool
  uploadProgress :: "Progress option"
  activeRagStoreName :: "string option"
  chatHistory :: "ChatMessage list"
  isQueryLoading :: bool
  exampleQuestions :: "string list"
  documentName :: string
  remoteCalls :: "RemoteCall list"
  consoleErrors :: "(string \<times> Thrown) list"

definition issue :: "RemoteCall \<Rightarrow> 'a AppState_scheme \<Rightarrow> 'a AppState_scheme" where
  "issue c s = s\<lparr>remoteCalls := remoteCalls s @ [c]\<rparr>"

definition consoleError :: "string \<Rightarrow> Thrown \<Rightarrow> 'a AppState_scheme \<Rightarrow> 'a AppState_scheme" where
  "consoleError m e s = s\<lparr>consoleErrors := consoleErrors s @ [(m, e)]\<rparr>"

text \<open>JavaScript truthiness of a \<open>string | null\<close>: \<open>null\<close> and the empty string are falsy.\<close>

fun truthyName :: "string option \<Rightarrow> bool" where
  "truthyName None = False"
| "truthyName (Some n) = (n \<noteq> [])"

subsection \<open>Numbers in template literals\<close>

definition digitChar :: "nat \<Rightarrow> char" where
  "digitChar d = ''0123456789'' ! d"

fun stringOfNat :: "nat \<Rightarrow> string" where
  "stringOfNat n = (if n < 10 then [digitChar n] else stringOfNat (n div 10) @ [digitChar (n mod 10)])"

declare stringOfNat.simps [simp del]

subsection \<open>The session label\<close>

text \<open>Lines 93--100 of \<open>handleUploadAndStartChat\<close>; \<open>files[0]\<close> and \<open>files[1]\<close> are
  read only where the length makes them exist.\<close>

definition docName :: "File list \<Rightarrow> string" where
  "docName files =
     (if length files = 1 then name (files ! 0)
      else if length files = 2 then name (files ! 0) @ '' & '' @ name (files ! 1)
      else stringOfNat (length files) @ '' documents'')"


section \<open>Handlers of \<open>App\<close>\<close>

text \<open>
  A handler runs from the state of the render in which it was created (its closure) and
  queues updates. It is modelled as a function from that state to the state after all
  its updates; what an awaited remote call resolves or rejects with is a parameter
  (\<open>Inl\<close> a rejection, \<open>Inr\<close> the value).
\<close>

definition handleError :: "string \<Rightarrow> Thrown \<Rightarrow> 'a AppState_scheme \<Rightarrow> 'a AppState_scheme" where
  "handleError msg err s =
     (consoleError msg err s)
       \<lparr>error := Some (msg @ (if truthy err then '': '' @ errText err else [])),
        status := Error\<rparr>"

definition clearError :: "'a AppState_scheme \<Rightarrow> 'a AppState_scheme" where
  "clearError s = s\<lparr>error := None, status := Chatting\<rparr>"

text \<open>
  \<open>handleEndChat\<close> (the same text in both versions of \<open>App\<close>). \<open>del\<close> is the outcome
  of the background \<open>deleteRagStore\<close>: \<open>None\<close> when it resolves, \<open>Some err\<close> when it
  rejects, which only reaches \<open>console.error\<close>.
\<close>

definition handleEndChat :: "'a AppState_scheme \<Rightarrow> Thrown option \<Rightarrow> 'a AppState_scheme" where
  "handleEndChat s del =
     (let s1 = (case activeRagStoreName s of
                  None \<Rightarrow> s
                | Some h \<Rightarrow>
                    if h \<noteq> [] then
                      (let s0 = issue (DeleteRagStore h) s in
                       case del of
                         None \<Rightarrow> s0
                       | Some err \<Rightarrow> consoleError ''Failed to delete RAG store in background'' err s0)
                    else s)
      in s1\<lparr>activeRagStoreName := None,
            chatHistory := [],
            exampleQuestions := [],
            documentName := [],
            searchSource := FileSearch,
            status := Chatting\<rparr>)"

definition handleFileSearchClick :: "'a AppState_scheme \<Rightarrow> Thrown option \<Rightarrow> 'a AppState_scheme" where
  "handleFileSearchClick s del =
     (let s1 = (if truthyName (activeRagStoreName s) \<or> searchSource s = GoogleSearch
                then handleEndChat s del else s)
      in s1\<lparr>isUploadModalOpen := True\<rparr>)"

definition userMessage :: "string \<Rightarrow> ChatMessage" where
  "userMessage msg = \<lparr>role = User, parts = [msg], groundingChunks = None\<rparr>"

definition modelMessage :: "QueryResult \<Rightarrow> ChatMessage" where
  "modelMessage result =
     \<lparr>role = Model, parts = [resultText result], groundingChunks = resultGroundingChunks result\<rparr>"

definition errorMessage :: ChatMessage where
  "errorMessage =
     \<lparr>role = Model, parts = [''Sorry, I encountered an error. Please try again.''],
      groundingChunks = None\<rparr>"

text \<open>The call of the \<open>try\<close> block of \<open>handleSendMessage\<close>. Past the guard of the handler
  a \<open>FileSearch\<close> query always has a handle; \<open>activeRagStoreName!\<close> of \<open>null\<close> would
  pass \<open>null\<close> on.\<close>

definition queryCall :: "SearchSource \<Rightarrow> string option \<Rightarrow> string \<Rightarrow> RemoteCall" where
  "queryCall src h msg =
     (if src = FileSearch then FileSearchCall (case h of Some n \<Rightarrow> n | None \<Rightarrow> []) msg
      else GoogleSearchCall msg)"

definition handleSendMessage ::
  "'a AppState_scheme \<Rightarrow> string \<Rightarrow> Thrown + QueryResult \<Rightarrow> 'a AppState_scheme" where
  "handleSendMessage s msg res =
     (if searchSource s = FileSearch \<and> \<not> truthyName (activeRagStoreName s) then s
      else
        let s1 = s\<lparr>chatHistory := chatHistory s @ [userMessage msg]\<rparr>;
            s2 = s1\<lparr>isQueryLoading := True\<rparr>;
            s3 = issue (queryCall (searchSource s) (activeRagStoreName s) msg) s2;
            s4 = (case res of
                    Inr result \<Rightarrow> s3\<lparr>chatHistory := chatHistory s3 @ [modelMessage result]\<rparr>
                  | Inl err \<Rightarrow>
                      handleError ''Failed to get response'' err
                        (s3\<lparr>chatHistory := chatHistory s3 @ [errorMessage]\<rparr>))
        in s4\<lparr>isQueryLoading := False\<rparr>)"

text \<open>
  \<open>handleSwitchSource\<close> in two parts: what runs before the \<open>await\<close> of
  \<open>generateGoogleSearchQuestions\<close>, and what runs once it has settled.
\<close>

definition switchSourceStart ::
  "AppState \<Rightarrow> SearchSource \<Rightarrow> Thrown option \<Rightarrow> AppState" where
  "switchSourceStart s src del =
     (if src = searchSource s then s
      else
        let s1 = handleEndChat s del;
            s2 = s1\<lparr>searchSource := src\<rparr>
        in if src = GoogleSearch
           then issue GenerateGoogleSearchQuestions (s2\<lparr>isQueryLoading := True\<rparr>)
           else s2)"

definition switchSourceSettle ::
  "'a AppState_scheme \<Rightarrow> Thrown + string list \<Rightarrow> 'a AppState_scheme" where
  "switchSourceSettle s qres =
     (let s1 = (case qres of
                  Inr questions \<Rightarrow> s\<lparr>exampleQuestions := questions\<rparr>
                | Inl err \<Rightarrow> consoleError ''Failed to get Google Search questions'' err s)
      in s1\<lparr>isQueryLoading := False\<rparr>)"

definition handleSwitchSource ::
  "AppState \<Rightarrow> SearchSource \<Rightarrow> Thrown option \<Rightarrow> Thrown + string list \<Rightarrow> AppState" where
  "handleSwitchSource s src del qres =
     (if src \<noteq> searchSource s \<and> src = GoogleSearch
      then switchSourceSettle (switchSourceStart s src del) qres
      else switchSourceStart s src del)"

subsection \<open>Starting a document session\<close>

text \<open>The upload loop, lines 75--83. \<open>uploadStep\<close> is one pass of its body up to the
  \<open>await\<close>: the progress update (\<open>prev\<close> is never \<open>null\<close> there) and the call.
  \<open>resp i\<close> is what \<open>uploadToRagStore\<close> settles with for \<open>files[i]\<close>; a rejection
  leaves the loop with the value thrown.\<close>

definition uploadStep ::
  "string \<Rightarrow> File list \<Rightarrow> nat \<Rightarrow> 'a AppState_scheme \<Rightarrow> 'a AppState_scheme" where
  "uploadStep rag fs i s =
     (let s1 = s\<lparr>uploadProgress :=
                   map_option (\<lambda>prev. prev\<lparr>current := i + 1,
                                          message := Some ''Generating embeddings...'',
                                          fileName := Some (''('' @ stringOfNat (i + 1) @ ''/''
                                             @ stringOfNat (length fs) @ '') '' @ name (fs ! i))\<rparr>)
                     (uploadProgress s)\<rparr>
      in issue (UploadToRagStore rag (fs ! i)) s1)"

function uploadLoop ::
  "string \<Rightarrow> File list \<Rightarrow> (nat \<Rightarrow> Thrown + unit) \<Rightarrow> nat \<Rightarrow> 'a AppState_scheme
     \<Rightarrow> 'a AppState_scheme \<times> Thrown option" where
  "uploadLoop rag fs resp i s =
     (if i < length fs then
        (case resp i of
           Inl err \<Rightarrow> (uploadStep rag fs i s, Some err)
         | Inr u \<Rightarrow> uploadLoop rag fs resp (i + 1) (uploadStep rag fs i s))
      else (s, None))"
  by pat_completeness auto
termination
  by (relation "measure (\<lambda>(rag, fs, resp, i, s). length fs - i)") auto

declare uploadLoop.simps [simp del]

text \<open>The \<open>try\<close> block, lines 70--106. The result carries the value thrown, if any.
  The pause of 500 ms before the label is computed changes no state and is left out.\<close>

definition startSequence ::
  "File list \<Rightarrow> nat \<Rightarrow> Thrown + string \<Rightarrow> (nat \<Rightarrow> Thrown + unit) \<Rightarrow> Thrown + string list
     \<Rightarrow> 'a AppState_scheme \<Rightarrow> 'a AppState_scheme \<times> Thrown option" where
  "startSequence fs now cres resp qres s =
     (let totalSteps = length fs + 2;
          storeName = ''chat-session-'' @ stringOfNat now;
          s1 = issue (CreateRagStore storeName) s
      in case cres of
           Inl err \<Rightarrow> (s1, Some err)
         | Inr ragStoreName \<Rightarrow>
             (let s2 = s1\<lparr>uploadProgress :=
                           Some \<lparr>current = 1, total = totalSteps,
                                 message = Some ''Generating embeddings...'', fileName = None\<rparr>\<rparr>
              in case uploadLoop ragStoreName fs resp 0 s2 of
                   (s3, Some err) \<Rightarrow> (s3, Some err)
                 | (s3, None) \<Rightarrow>
                     (let s4 = s3\<lparr>uploadProgress :=
                                   Some \<lparr>current = length fs + 1, total = totalSteps,
                                         message = Some ''Generating suggestions...'',
                                         fileName = Some []\<rparr>\<rparr>;
                          s5 = issue (GenerateExampleQuestions ragStoreName) s4
                      in case qres of
                           Inl err \<Rightarrow> (s5, Some err)
                         | Inr questions \<Rightarrow>
                             (s5\<lparr>exampleQuestions := questions,
                                 uploadProgress :=
                                   Some \<lparr>current = totalSteps, total = totalSteps,
                                         message = Some ''All set!'', fileName = Some []\<rparr>,
                                 documentName := docName fs,
                                 activeRagStoreName := Some ragStoreName,
                                 chatHistory := [],
                                 status := Chatting,
                                 isUploadModalOpen := False\<rparr>, None))))"

text \<open>
  \<open>handleUploadAndStartChat\<close> of \<open>src/App.tsx\<close>. The \<open>finally\<close> block tests the
  \<open>status\<close> of the closure, that is, of the state the handler started from.
\<close>

definition handleUploadAndStartChat ::
  "AppState \<Rightarrow> File list \<Rightarrow> nat \<Rightarrow> Thrown + string \<Rightarrow> (nat \<Rightarrow> Thrown + unit)
     \<Rightarrow> Thrown + string list \<Rightarrow> AppState" where
  "handleUploadAndStartChat s fs now cres resp qres =
     (if length fs = 0 then s
      else
        let s1 = s\<lparr>status := Uploading,
                   uploadProgress :=
                     Some \<lparr>current = 0, total = length fs + 2,
                           message = Some ''Creating document index...'', fileName = None\<rparr>\<rparr>;
            (s2, thrown) = startSequence fs now cres resp qres s1;
            s3 = (case thrown of
                    None \<Rightarrow> s2
                  | Some err \<Rightarrow> handleError ''Failed to start chat session'' err s2);
            s4 = s3\<lparr>uploadProgress := None\<rparr>
        in if status s \<noteq> Error then s4\<lparr>status := Chatting\<rparr> else s4)"

text \<open>The state of the first render and the effects run on mount.\<close>

definition initialState :: AppState where
  "initialState =
     \<lparr>status = Initializing, searchSource = FileSearch, error = None,
      isUploadModalOpen = False, uploadProgress = None, activeRagStoreName = None,
      chatHistory = [], isQueryLoading = False, exampleQuestions = [], documentName = [],
      remoteCalls = [], consoleErrors = []\<rparr>"

definition mounted :: AppState where
  "mounted = (issue Initialize initialState)\<lparr>status := Chatting\<rparr>"

definition onClose :: "'a AppState_scheme \<Rightarrow> 'a AppState_scheme" where
  "onClose s = s\<lparr>isUploadModalOpen := False\<rparr>"


text \<open>The \<open>beforeunload\<close> listener: \<open>ragStoreNameRef.current\<close> follows
  \<open>activeRagStoreName\<close> after every render.\<close>

definition handleUnload :: "'a AppState_scheme \<Rightarrow> Thrown option \<Rightarrow> 'a AppState_scheme" where
  "handleUnload s del =
     (case activeRagStoreName s of
        None \<Rightarrow> s
      | Some h \<Rightarrow>
          if h \<noteq> [] then
            (let s0 = issue (DeleteRagStore h) s in
             case del of
               None \<Rightarrow> s0
             | Some err \<Rightarrow> consoleError ''Error deleting RAG store on unload:'' err s0)
          else s)"

subsection \<open>The user's intents, as \<open>renderContent\<close> wires them\<close>

text \<open>
  \<open>ChatInterface\<close> and \<open>UploadModal\<close> are rendered in the statuses \<open>Chatting\<close> and
  \<open>Uploading\<close>, the error page with its \<open>Try Again\<close> button in the status \<open>Error\<close>.
  \<open>UploadModal\<close> renders nothing unless \<open>isOpen\<close>; when open, its backdrop covers the
  chat interface, whose controls are taken to be out of reach until the modal closes.
\<close>

definition rendered :: "'a AppState_scheme \<Rightarrow> bool" where
  "rendered s = (status s = Chatting \<or> status s = Uploading)"

definition chatEnabled :: "'a AppState_scheme \<Rightarrow> bool" where
  "chatEnabled s = (rendered s \<and> \<not> isUploadModalOpen s)"

definition modalEnabled :: "'a AppState_scheme \<Rightarrow> bool" where
  "modalEnabled s = (rendered s \<and> isUploadModalOpen s)"

inductive reachable :: "AppState \<Rightarrow> bool" where
  r_mount: "reachable mounted"
| r_send: "reachable s \<Longrightarrow> chatEnabled s \<Longrightarrow> reachable (handleSendMessage s msg res)"
| r_newChat: "reachable s \<Longrightarrow> chatEnabled s \<Longrightarrow> reachable (handleEndChat s del)"
| r_switch: "reachable s \<Longrightarrow> chatEnabled s \<Longrightarrow> reachable (handleSwitchSource s src del qres)"
| r_fileSearchClick: "reachable s \<Longrightarrow> chatEnabled s \<Longrightarrow> reachable (handleFileSearchClick s del)"
| r_upload: "reachable s \<Longrightarrow> modalEnabled s \<Longrightarrow>
             reachable (handleUploadAndStartChat s fs now cres resp qres)"
| r_close: "reachable s \<Longrightarrow> modalEnabled s \<Longrightarrow> reachable (onClose s)"
| r_clearError: "reachable s \<Longrightarrow> status s = Error \<Longrightarrow> reachable (clearError s)"
| r_unload: "reachable s \<Longrightarrow> reachable (handleUnload s del)"

section \<open>The version of \<open>App\<close> with API-key selection (src/unnamed/part_000)\<close>

text \<open>
  This version adds the states \<open>isApiKeySelected\<close> and \<open>apiKeyError\<close>. Its
  \<open>handleError\<close>, \<open>clearError\<close>, \<open>handleEndChat\<close> and \<open>handleSendMessage\<close> have the
  text of \<open>src/App.tsx\<close>; the definitions above apply to both states.
\<close>

record KeyedState = AppState +
  isApiKeySelected :: bool
  apiKeyError :: "string option"

text \<open>\<open>toLowerCase\<close> and \<open>includes\<close>, on the ASCII letters the two tested phrases
  are made of.\<close>

definition toLowerChar :: "char \<Rightarrow> char" where
  "toLowerChar c =
     (let n = (of_char c :: nat) in if 65 \<le> n \<and> n \<le> 90 then char_of (n + 32) else c)"

definition toLowerCase :: "string \<Rightarrow> string" where
  "toLowerCase str = map toLowerChar str"

fun startsWith :: "string \<Rightarrow> string \<Rightarrow> bool" where
  "startsWith str [] = True"
| "startsWith [] (p # ps) = False"
| "startsWith (c # cs) (p # ps) = (c = p \<and> startsWith cs ps)"

fun includesStr :: "string \<Rightarrow> string \<Rightarrow> bool" where
  "includesStr [] sub = (sub = [])"
| "includesStr (c # cs) sub = (startsWith (c # cs) sub \<or> includesStr cs sub)"

text \<open>\<open>checkApiKey\<close>: \<open>r\<close> is \<open>None\<close> when \<open>window.aistudio?.hasSelectedApiKey\<close> is
  missing, else what the awaited \<open>hasSelectedApiKey()\<close> settles with.\<close>

definition checkApiKey :: "KeyedState \<Rightarrow> (Thrown + bool) option \<Rightarrow> KeyedState" where
  "checkApiKey s r =
     (case r of
        None \<Rightarrow> s
      | Some (Inr hasKey) \<Rightarrow>
          (let s1 = s\<lparr>isApiKeySelected := hasKey\<rparr>
           in if hasKey then issue Initialize (s1\<lparr>apiKeyError := None\<rparr>) else s1)
      | Some (Inl e) \<Rightarrow>
          (consoleError ''Error checking for API key:'' e s)\<lparr>isApiKeySelected := False\<rparr>)"

definition handleUploadAndStartChat_keyed ::
  "KeyedState \<Rightarrow> File list \<Rightarrow> nat \<Rightarrow> Thrown + string \<Rightarrow> (nat \<Rightarrow> Thrown + unit)
     \<Rightarrow> Thrown + string list \<Rightarrow> KeyedState" where
  "handleUploadAndStartChat_keyed s fs now cres resp qres =
     (if \<not> isApiKeySelected s
      then s\<lparr>apiKeyError := Some ''Please select your Gemini API Key first.''\<rparr>
      else if length fs = 0 then s
      else
        let s1 = s\<lparr>status := Uploading,
                   uploadProgress :=
                     Some \<lparr>current = 0, total = length fs + 2,
                           message = Some ''Creating document index...'', fileName = None\<rparr>\<rparr>;
            (s2, thrown) = startSequence fs now cres resp qres s1;
            s3 = (case thrown of
                    None \<Rightarrow> s2
                  | Some err \<Rightarrow>
                      (let errorMessage = toLowerCase (errText err)
                       in if includesStr errorMessage ''api key not valid''
                             \<or> includesStr errorMessage ''requested entity was not found''
                          then s2\<lparr>apiKeyError := Some ''The selected API key is invalid. Please select a different one and try again.'',
                                  isApiKeySelected := False\<rparr>
                          else handleError ''Failed to start chat session'' err s2));
            s4 = s3\<lparr>uploadProgress := None\<rparr>
        in if status s \<noteq> Error then s4\<lparr>status := Chatting\<rparr> else s4)"

definition handleSwitchSource_keyed ::
  "KeyedState \<Rightarrow> SearchSource \<Rightarrow> Thrown option \<Rightarrow> Thrown + string list \<Rightarrow> KeyedState" where
  "handleSwitchSource_keyed s src del qres =
     (if src = searchSource s then s
      else
        let s1 = handleEndChat s del;
            s2 = s1\<lparr>searchSource := src\<rparr>
        in if src = GoogleSearch then
             (if \<not> isApiKeySelected s
              then s2\<lparr>apiKeyError := Some ''Please select your Gemini API Key to use Google Search.''\<rparr>
              else switchSourceSettle
                     (issue GenerateGoogleSearchQuestions (s2\<lparr>isQueryLoading := True\<rparr>)) qres)
           else s2)"

text \<open>Line 278: \<open>onFileSearchClick={() => setIsUploadModalOpen(true)}\<close>.\<close>

definition onFileSearchClick_keyed :: "KeyedState \<Rightarrow> KeyedState" where
  "onFileSearchClick_keyed s = s\<lparr>isUploadModalOpen := True\<rparr>"

definition initialState_keyed :: KeyedState where
  "initialState_keyed =
     \<lparr>status = Initializing, searchSource = FileSearch, error = None,
      isUploadModalOpen = False, uploadProgress = None, activeRagStoreName = None,
      chatHistory = [], isQueryLoading = False, exampleQuestions = [], documentName = [],
      remoteCalls = [], consoleErrors = [],
      isApiKeySelected = False, apiKeyError = None\<rparr>"

definition mounted_keyed :: "(Thrown + bool) option \<Rightarrow> KeyedState" where
  "mounted_keyed r = checkApiKey (initialState_keyed\<lparr>status := Chatting\<rparr>) r"

section \<open>The upload modal (src/components/UploadModal.tsx)\<close>

record ModalState =
  files :: "File list"
  isDragging :: bool
  loadingSample :: "string option"

text \<open>
  \<open>handleClose\<close>, lines 106--110. The props \<open>uploadProgress\<close> and \<open>onClose\<close> are
  parameters; \<open>onClose\<close> acts on the state of the parent component.
\<close>

definition handleClose ::
  "Progress option \<Rightarrow> ('p \<Rightarrow> 'p) \<Rightarrow> ModalState \<times> 'p \<Rightarrow> ModalState \<times> 'p" where
  "handleClose progress close mp =
     (case mp of (m, parent) \<Rightarrow>
        if progress \<noteq> None then (m, parent)
        else (m\<lparr>files := []\<rparr>, close parent))"

text \<open>The modal as \<open>App\<close> renders it: \<open>uploadProgress={uploadProgress}\<close> and
  \<open>onClose={() => setIsUploadModalOpen(false)}\<close>.\<close>

definition modalClose :: "ModalState \<times> AppState \<Rightarrow> ModalState \<times> AppState" where
  "modalClose mp = handleClose (uploadProgress (snd mp)) onClose mp"


section \<open>Predicates used in the statements\<close>

text \<open>Every field of the component state but \<open>uploadProgress\<close> is the same in both
  states; the calls issued may differ.\<close>

definition sameSession :: "'a AppState_scheme \<Rightarrow> 'a AppState_scheme \<Rightarrow> bool" where
  "sameSession s' s =
     (status s' = status s \<and> searchSource s' = searchSource s \<and> error s' = error s
      \<and> isUploadModalOpen s' = isUploadModalOpen s
      \<and> activeRagStoreName s' = activeRagStoreName s \<and> chatHistory s' = chatHistory s
      \<and> isQueryLoading s' = isQueryLoading s \<and> exampleQuestions s' = exampleQuestions s
      \<and> documentName s' = documentName s \<and> consoleErrors s' = consoleErrors s)"

text \<open>Every step of the start sequence resolves: the index creation, the upload of each
  of the \<open>n\<close> files, and the generation of the suggested questions.\<close>

definition allSucceed ::
  "Thrown + string \<Rightarrow> (nat \<Rightarrow> Thrown + unit) \<Rightarrow> Thrown + string list \<Rightarrow> nat \<Rightarrow> bool" where
  "allSucceed cres resp qres n =
     (\<not> isl cres \<and> list_all (\<lambda>j. \<not> isl (resp j)) [0..<n] \<and> \<not> isl qres)"

text \<open>The query passes the guard of \<open>handleSendMessage\<close>, so its remote call is issued.\<close>

definition queryIssued :: "'a AppState_scheme \<Rightarrow> bool" where
  "queryIssued s = (searchSource s = GoogleSearch \<or> truthyName (activeRagStoreName s))"


text \<open>
  The calls of a start sequence as the specification words them: the index creation;
  then, if it resolved, the uploads of the files in order up to and including the first
  one that fails; then, if every upload resolved, the question generation.
\<close>

definition uploadsAttempted :: "(nat \<Rightarrow> Thrown + unit) \<Rightarrow> nat \<Rightarrow> nat list" where
  "uploadsAttempted resp n =
     takeWhile (\<lambda>j. \<not> isl (resp j)) [0..<n] @ take 1 (dropWhile (\<lambda>j. \<not> isl (resp j)) [0..<n])"

definition startCalls ::
  "File list \<Rightarrow> nat \<Rightarrow> Thrown + string \<Rightarrow> (nat \<Rightarrow> Thrown + unit) \<Rightarrow> RemoteCall list" where
  "startCalls fs now cres resp =
     CreateRagStore (''chat-session-'' @ stringOfNat now) #
     (case cres of
        Inl e \<Rightarrow> []
      | Inr h \<Rightarrow>
          map (\<lambda>j. UploadToRagStore h (fs ! j)) (uploadsAttempted resp (length fs))
          @ (if list_all (\<lambda>j. \<not> isl (resp j)) [0..<length fs]
             then [GenerateExampleQuestions h] else []))"


text \<open>The idle session of the specification: no index handle, an empty transcript, no
  suggested questions and an empty document label.\<close>

definition idle :: "'a AppState_scheme \<Rightarrow> bool" where
  "idle s = (activeRagStoreName s = None \<and> chatHistory s = [] \<and> exampleQuestions s = []
             \<and> documentName s = [])"

text \<open>The mode side of the handle invariant: a handle exists only in the
  \<open>FileSearch\<close> mode, and the upload modal is open only in that mode.\<close>

definition modeInvariant :: "'a AppState_scheme \<Rightarrow> bool" where
  "modeInvariant s =
     ((activeRagStoreName s \<noteq> None \<longrightarrow> searchSource s = FileSearch)
      \<and> (isUploadModalOpen s \<longrightarrow> searchSource s = FileSearch))"

text \<open>Reading a decimal numeral back, to state what \<open>stringOfNat\<close> writes.\<close>

definition digitValue :: "char \<Rightarrow> nat" where
  "digitValue c = of_char c - 48"

definition natOfString :: "string \<Rightarrow> nat" where
  "natOfString str = foldl (\<lambda>a c. 10 * a + digitValue c) 0 str"

section \<open>Example inputs\<close>

definition pdf :: "string \<Rightarrow> File" where
  "pdf n = \<lparr>name = n, bytes = ''%PDF''\<rparr>"

text \<open>A web-grounded session, and a document session over two files.\<close>

definition googleSession :: AppState where
  "googleSession = handleSwitchSource mounted GoogleSearch None (Inr [''What is new today?''])"

definition documentSession :: AppState where
  "documentSession =
     handleUploadAndStartChat (handleFileSearchClick mounted None)
       [pdf ''a.pdf'', pdf ''b.pdf''] 1700000000000
       (Inr ''fileSearchStores/s1'') (\<lambda>i. Inr ()) (Inr [''What is covered?''])"

text \<open>An upload sequence whose second upload is rejected.\<close>

definition secondUploadFails :: "nat \<Rightarrow> Thrown + unit" where
  "secondUploadFails i = (if i = 1 then Inl (ErrorInstance ''quota exceeded'') else Inr ())"

text \<open>The state while an upload sequence is in flight, after the first two updates of
  \<open>handleUploadAndStartChat\<close>, and a modal with one file picked.\<close>

definition uploading :: AppState where
  "uploading =
     (handleFileSearchClick mounted None)
       \<lparr>status := Uploading,
        uploadProgress := Some \<lparr>current = 0, total = 3,
                                message = Some ''Creating document index...'', fileName = None\<rparr>\<rparr>"

definition picked :: ModalState where
  "picked = \<lparr>files = [pdf ''a.pdf''], isDragging = False, loadingSample = None\<rparr>"

text \<open>In the version with API-key selection: a key is selected, the user switches to
  \<open>GoogleSearch\<close>, opens the upload modal and uploads one file; every call resolves.\<close>

definition keyedGoogle :: KeyedState where
  "keyedGoogle =
     handleSwitchSource_keyed (mounted_keyed (Some (Inr True))) GoogleSearch None
       (Inr [''What is new today?''])"

definition keyedUploaded :: KeyedState where
  "keyedUploaded =
     handleUploadAndStartChat_keyed (onFileSearchClick_keyed keyedGoogle)
       [pdf ''a.pdf''] 1700000000000
       (Inr ''fileSearchStores/s1'') (\<lambda>i. Inr ()) (Inr [''What is covered?''])"

section \<open>Frame lemmas\<close>

lemma issue_fields:
  "status (issue c s) = status s"
  "searchSource (issue c s) = searchSource s"
  "error (issue c s) = error s"
  "isUploadModalOpen (issue c s) = isUploadModalOpen s"
  "uploadProgress (issue c s) = uploadProgress s"
  "activeRagStoreName (issue c s) = activeRagStoreName s"
  "chatHistory (issue c s) = chatHistory s"
  "isQueryLoading (issue c s) = isQueryLoading s"
  "exampleQuestions (issue c s) = exampleQuestions s"
  "documentName (issue c s) = documentName s"
  "consoleErrors (issue c s) = consoleErrors s"
  "remoteCalls (issue c s) = remoteCalls s @ [c]"
  by (simp_all add: issue_def)

lemma consoleError_fields:
  "status (consoleError m e s) = status s"
  "searchSource (consoleError m e s) = searchSource s"
  "error (consoleError m e s) = error s"
  "isUploadModalOpen (consoleError m e s) = isUploadModalOpen s"
  "uploadProgress (consoleError m e s) = uploadProgress s"
  "activeRagStoreName (consoleError m e s) = activeRagStoreName s"
  "chatHistory (consoleError m e s) = chatHistory s"
  "isQueryLoading (consoleError m e s) = isQueryLoading s"
  "exampleQuestions (consoleError m e s) = exampleQuestions s"
  "documentName (consoleError m e s) = documentName s"
  "remoteCalls (consoleError m e s) = remoteCalls s"
  "consoleErrors (consoleError m e s) = consoleErrors s @ [(m, e)]"
  by (simp_all add: consoleError_def)

lemma uploadStep_fields:
  "status (uploadStep rag fs i s) = status s"
  "searchSource (uploadStep rag fs i s) = searchSource s"
  "error (uploadStep rag fs i s) = error s"
  "isUploadModalOpen (uploadStep rag fs i s) = isUploadModalOpen s"
  "activeRagStoreName (uploadStep rag fs i s) = activeRagStoreName s"
  "chatHistory (uploadStep rag fs i s) = chatHistory s"
  "isQueryLoading (uploadStep rag fs i s) = isQueryLoading s"
  "exampleQuestions (uploadStep rag fs i s) = exampleQuestions s"
  "documentName (uploadStep rag fs i s) = documentName s"
  "consoleErrors (uploadStep rag fs i s) = consoleErrors s"
  "remoteCalls (uploadStep rag fs i s) = remoteCalls s @ [UploadToRagStore rag (fs ! i)]"
  by (simp_all add: uploadStep_def issue_def)

lemma uploadLoop_frame:
  "sameSession (fst (uploadLoop rag fs resp i s)) s"
proof (induction rag fs resp i s rule: uploadLoop.induct)
  case (1 rag fs resp i s)
  show ?case
  proof (cases "i < length fs")
    case False
    then show ?thesis by (simp add: uploadLoop.simps [of rag fs resp i s] sameSession_def)
  next
    case True
    show ?thesis
    proof (cases "resp i")
      case (Inl err)
      with True show ?thesis
        by (simp add: uploadLoop.simps [of rag fs resp i s] sameSession_def uploadStep_fields)
    next
      case (Inr u)
      with True "1.IH" [of u] show ?thesis
        by (simp add: uploadLoop.simps [of rag fs resp i s] sameSession_def uploadStep_fields)
    qed
  qed
qed

lemma uploadLoop_result:
  "snd (uploadLoop rag fs resp i s) = None \<longleftrightarrow> (\<forall>j. i \<le> j \<and> j < length fs \<longrightarrow> \<not> isl (resp j))"
proof (induction rag fs resp i s rule: uploadLoop.induct)
  case (1 rag fs resp i s)
  show ?case
  proof (cases "i < length fs")
    case False
    then show ?thesis by (auto simp add: uploadLoop.simps [of rag fs resp i s])
  next
    case True
    show ?thesis
    proof (cases "resp i")
      case (Inl err)
      with True show ?thesis
        by (auto simp add: uploadLoop.simps [of rag fs resp i s])
    next
      case (Inr u)
      have "(\<forall>j. i \<le> j \<and> j < length fs \<longrightarrow> \<not> isl (resp j))
            \<longleftrightarrow> (\<forall>j. i + 1 \<le> j \<and> j < length fs \<longrightarrow> \<not> isl (resp j))"
      proof
        assume "\<forall>j. i \<le> j \<and> j < length fs \<longrightarrow> \<not> isl (resp j)"
        then show "\<forall>j. i + 1 \<le> j \<and> j < length fs \<longrightarrow> \<not> isl (resp j)" by auto
      next
        assume h: "\<forall>j. i + 1 \<le> j \<and> j < length fs \<longrightarrow> \<not> isl (resp j)"
        show "\<forall>j. i \<le> j \<and> j < length fs \<longrightarrow> \<not> isl (resp j)"
        proof (intro allI impI)
          fix j assume j: "i \<le> j \<and> j < length fs"
          show "\<not> isl (resp j)"
          proof (cases "j = i")
            case True
            with Inr show ?thesis by simp
          next
            case False
            with j have "i + 1 \<le> j \<and> j < length fs" by simp
            with h show ?thesis by blast
          qed
        qed
      qed
      with True Inr "1.IH" [of u] show ?thesis
        by (simp add: uploadLoop.simps [of rag fs resp i s])
    qed
  qed
qed


lemma uploadLoop_calls:
  "remoteCalls (fst (uploadLoop rag fs resp i s)) =
     remoteCalls s @ map (\<lambda>j. UploadToRagStore rag (fs ! j))
       (takeWhile (\<lambda>j. \<not> isl (resp j)) [i..<length fs]
        @ take 1 (dropWhile (\<lambda>j. \<not> isl (resp j)) [i..<length fs]))"
proof (induction rag fs resp i s rule: uploadLoop.induct)
  case (1 rag fs resp i s)
  show ?case
  proof (cases "i < length fs")
    case False
    then show ?thesis by (simp add: uploadLoop.simps [of rag fs resp i s])
  next
    case True
    then have up: "[i..<length fs] = i # [i + 1..<length fs]"
      by (simp add: upt_conv_Cons)
    show ?thesis
    proof (cases "resp i")
      case (Inl err)
      with True show ?thesis
        by (simp add: uploadLoop.simps [of rag fs resp i s] up uploadStep_fields)
    next
      case (Inr u)
      with True "1.IH" [of u] show ?thesis
        by (simp add: uploadLoop.simps [of rag fs resp i s] up uploadStep_fields)
    qed
  qed
qed

lemma allSucceed_iff:
  "allSucceed cres resp qres n \<longleftrightarrow>
     (\<not> isl cres \<and> (\<forall>j. 0 \<le> j \<and> j < n \<longrightarrow> \<not> isl (resp j)) \<and> \<not> isl qres)"
  by (auto simp add: allSucceed_def list_all_iff)

lemma uploadLoop_pair:
  assumes "uploadLoop rag fs resp i s = (s', r)"
  shows "sameSession s' s
       \<and> (r = None \<longleftrightarrow> (\<forall>j. i \<le> j \<and> j < length fs \<longrightarrow> \<not> isl (resp j)))"
  using uploadLoop_frame [of rag fs resp i s] uploadLoop_result [of rag fs resp i s] assms
  by simp

lemma startSequence_result:
  "snd (startSequence fs now cres resp qres s) = None \<longleftrightarrow> allSucceed cres resp qres (length fs)"
  unfolding startSequence_def Let_def allSucceed_iff
  by (auto split: sum.splits prod.splits option.splits dest!: uploadLoop_pair)

lemma startSequence_commit:
  assumes "allSucceed cres resp qres (length fs)"
  shows "activeRagStoreName (fst (startSequence fs now cres resp qres s)) = Some (projr cres)
       \<and> documentName (fst (startSequence fs now cres resp qres s)) = docName fs
       \<and> chatHistory (fst (startSequence fs now cres resp qres s)) = []
       \<and> exampleQuestions (fst (startSequence fs now cres resp qres s)) = projr qres
       \<and> status (fst (startSequence fs now cres resp qres s)) = Chatting
       \<and> isUploadModalOpen (fst (startSequence fs now cres resp qres s)) = False
       \<and> searchSource (fst (startSequence fs now cres resp qres s)) = searchSource s
       \<and> error (fst (startSequence fs now cres resp qres s)) = error s"
  using assms unfolding startSequence_def Let_def allSucceed_iff
  by (auto split: sum.splits prod.splits option.splits
           dest!: uploadLoop_pair simp add: sameSession_def issue_fields)

lemma startSequence_abort:
  assumes "\<not> allSucceed cres resp qres (length fs)"
  shows "sameSession (fst (startSequence fs now cres resp qres s)) s"
  using assms unfolding startSequence_def Let_def allSucceed_iff
  by (auto split: sum.splits prod.splits option.splits
           dest!: uploadLoop_pair simp add: sameSession_def issue_fields)


lemma uploadLoop_calls_pair:
  assumes "uploadLoop rag fs resp 0 s = (s', r)"
  shows "remoteCalls s' =
           remoteCalls s @ map (\<lambda>j. UploadToRagStore rag (fs ! j)) (uploadsAttempted resp (length fs))
       \<and> (r = None \<longleftrightarrow> list_all (\<lambda>j. \<not> isl (resp j)) [0..<length fs])"
  using uploadLoop_calls [of rag fs resp 0 s] uploadLoop_result [of rag fs resp 0 s] assms
  by (auto simp add: uploadsAttempted_def list_all_iff)

lemma startSequence_calls:
  "remoteCalls (fst (startSequence fs now cres resp qres s)) =
     remoteCalls s @ startCalls fs now cres resp"
  unfolding startSequence_def startCalls_def Let_def
  by (auto split: sum.splits prod.splits option.splits dest!: uploadLoop_calls_pair
           simp add: issue_fields)

lemma startSequence_pair:
  assumes "startSequence fs now cres resp qres s = (s', t)"
  shows "(t = None \<longleftrightarrow> allSucceed cres resp qres (length fs))
       \<and> remoteCalls s' = remoteCalls s @ startCalls fs now cres resp
       \<and> (\<not> allSucceed cres resp qres (length fs) \<longrightarrow> sameSession s' s)
       \<and> (allSucceed cres resp qres (length fs) \<longrightarrow>
            activeRagStoreName s' = Some (projr cres) \<and> documentName s' = docName fs
            \<and> chatHistory s' = [] \<and> exampleQuestions s' = projr qres
            \<and> status s' = Chatting \<and> isUploadModalOpen s' = False
            \<and> searchSource s' = searchSource s \<and> error s' = error s)"
  using assms startSequence_result [of fs now cres resp qres s]
    startSequence_calls [of fs now cres resp qres s]
    startSequence_abort [of cres resp qres fs now s]
    startSequence_commit [of cres resp qres fs now s]
  by simp

lemma handleError_fields:
  "status (handleError m e s) = Error"
  "error (handleError m e s) = Some (m @ (if truthy e then '': '' @ errText e else []))"
  "searchSource (handleError m e s) = searchSource s"
  "isUploadModalOpen (handleError m e s) = isUploadModalOpen s"
  "uploadProgress (handleError m e s) = uploadProgress s"
  "activeRagStoreName (handleError m e s) = activeRagStoreName s"
  "chatHistory (handleError m e s) = chatHistory s"
  "isQueryLoading (handleError m e s) = isQueryLoading s"
  "exampleQuestions (handleError m e s) = exampleQuestions s"
  "documentName (handleError m e s) = documentName s"
  "remoteCalls (handleError m e s) = remoteCalls s"
  "consoleErrors (handleError m e s) = consoleErrors s @ [(m, e)]"
  by (simp_all add: handleError_def consoleError_def)

lemma upload_commit:
  assumes "fs \<noteq> []" and "allSucceed cres resp qres (length fs)"
  shows "activeRagStoreName (handleUploadAndStartChat s fs now cres resp qres) = Some (projr cres)"
    and "documentName (handleUploadAndStartChat s fs now cres resp qres) = docName fs"
    and "chatHistory (handleUploadAndStartChat s fs now cres resp qres) = []"
    and "exampleQuestions (handleUploadAndStartChat s fs now cres resp qres) = projr qres"
    and "isUploadModalOpen (handleUploadAndStartChat s fs now cres resp qres) = False"
    and "searchSource (handleUploadAndStartChat s fs now cres resp qres) = searchSource s"
  using assms unfolding handleUploadAndStartChat_def Let_def
  by (auto split: prod.splits option.splits dest!: startSequence_pair)

lemma upload_abort:
  assumes "\<not> allSucceed cres resp qres (length fs)"
  shows "activeRagStoreName (handleUploadAndStartChat s fs now cres resp qres) = activeRagStoreName s"
    and "documentName (handleUploadAndStartChat s fs now cres resp qres) = documentName s"
    and "chatHistory (handleUploadAndStartChat s fs now cres resp qres) = chatHistory s"
    and "exampleQuestions (handleUploadAndStartChat s fs now cres resp qres) = exampleQuestions s"
    and "isUploadModalOpen (handleUploadAndStartChat s fs now cres resp qres) = isUploadModalOpen s"
    and "searchSource (handleUploadAndStartChat s fs now cres resp qres) = searchSource s"
  using assms unfolding handleUploadAndStartChat_def Let_def
  by (auto split: prod.splits option.splits dest!: startSequence_pair
           simp add: sameSession_def handleError_fields)

lemma upload_calls:
  assumes "fs \<noteq> []"
  shows "remoteCalls (handleUploadAndStartChat s fs now cres resp qres) =
           remoteCalls s @ startCalls fs now cres resp"
  using assms unfolding handleUploadAndStartChat_def Let_def
  by (auto split: prod.splits option.splits dest!: startSequence_pair
           simp add: handleError_fields)



lemma digitValue_digitChar: "d < 10 \<Longrightarrow> digitValue (digitChar d) = d"
proof -
  assume "d < 10"
  then have "d = 0 \<or> d = 1 \<or> d = 2 \<or> d = 3 \<or> d = 4 \<or> d = 5 \<or> d = 6 \<or> d = 7 \<or> d = 8 \<or> d = 9"
    by arith
  then show ?thesis
    by (elim disjE) (simp_all add: digitChar_def digitValue_def)
qed

lemma natOfString_stringOfNat: "natOfString (stringOfNat n) = n"
proof (induction n rule: stringOfNat.induct)
  case (1 n)
  show ?case
  proof (cases "n < 10")
    case True
    then show ?thesis
      by (simp add: stringOfNat.simps [of n] natOfString_def digitValue_digitChar)
  next
    case False
    with "1.IH" have "natOfString (stringOfNat (n div 10)) = n div 10" by simp
    with False show ?thesis
      by (simp add: stringOfNat.simps [of n] natOfString_def digitValue_digitChar)
  qed
qed

lemma handleEndChat_fields:
  "activeRagStoreName (handleEndChat s del) = None"
  "chatHistory (handleEndChat s del) = []"
  "exampleQuestions (handleEndChat s del) = []"
  "documentName (handleEndChat s del) = []"
  "searchSource (handleEndChat s del) = FileSearch"
  "status (handleEndChat s del) = Chatting"
  "error (handleEndChat s del) = error s"
  "isUploadModalOpen (handleEndChat s del) = isUploadModalOpen s"
  "isQueryLoading (handleEndChat s del) = isQueryLoading s"
  "uploadProgress (handleEndChat s del) = uploadProgress s"
  by (simp_all add: handleEndChat_def Let_def issue_def consoleError_def
        split: option.splits)

lemma handleEndChat_calls:
  "remoteCalls (handleEndChat s del) =
     remoteCalls s @ (case activeRagStoreName s of
                        None \<Rightarrow> []
                      | Some h \<Rightarrow> if h \<noteq> [] then [DeleteRagStore h] else [])"
  by (simp add: handleEndChat_def Let_def issue_def consoleError_def split: option.splits)

lemma handleEndChat_console:
  "consoleErrors (handleEndChat s del) =
     consoleErrors s @ (case del of
                          None \<Rightarrow> []
                        | Some err \<Rightarrow>
                            if truthyName (activeRagStoreName s)
                            then [(''Failed to delete RAG store in background'', err)] else [])"
  by (simp add: handleEndChat_def Let_def issue_def consoleError_def split: option.splits)

lemma handleSendMessage_fields:
  "activeRagStoreName (handleSendMessage s msg res) = activeRagStoreName s"
  "searchSource (handleSendMessage s msg res) = searchSource s"
  "isUploadModalOpen (handleSendMessage s msg res) = isUploadModalOpen s"
  by (simp_all add: handleSendMessage_def Let_def issue_fields handleError_fields split: sum.splits)

lemma handleSwitchSource_fields:
  "activeRagStoreName (handleSwitchSource s src del qres) =
     (if src = searchSource s then activeRagStoreName s else None)"
  "searchSource (handleSwitchSource s src del qres) = src"
  "isUploadModalOpen (handleSwitchSource s src del qres) = isUploadModalOpen s"
  by (auto simp add: handleSwitchSource_def switchSourceStart_def switchSourceSettle_def Let_def
        handleEndChat_fields issue_fields consoleError_fields split: sum.splits)

lemma handleFileSearchClick_fields:
  "isUploadModalOpen (handleFileSearchClick s del) = True"
  "activeRagStoreName (handleFileSearchClick s del) =
     (if truthyName (activeRagStoreName s) \<or> searchSource s = GoogleSearch then None
      else activeRagStoreName s)"
  "searchSource (handleFileSearchClick s del) = FileSearch"
  by (cases "searchSource s"; simp add: handleFileSearchClick_def Let_def handleEndChat_fields)+

lemma handleUnload_fields:
  "activeRagStoreName (handleUnload s del) = activeRagStoreName s"
  "searchSource (handleUnload s del) = searchSource s"
  "isUploadModalOpen (handleUnload s del) = isUploadModalOpen s"
  by (simp_all add: handleUnload_def Let_def issue_def consoleError_def split: option.splits)

lemma upload_mode:
  "searchSource (handleUploadAndStartChat s fs now cres resp qres) = searchSource s"
proof (cases "fs = []")
  case True
  then show ?thesis by (simp add: handleUploadAndStartChat_def)
next
  case ne: False
  show ?thesis
  proof (cases "allSucceed cres resp qres (length fs)")
    case True
    with ne show ?thesis by (rule upload_commit(6))
  next
    case False
    then show ?thesis by (rule upload_abort(6))
  qed
qed

lemma upload_modal:
  "isUploadModalOpen (handleUploadAndStartChat s fs now cres resp qres) \<Longrightarrow> isUploadModalOpen s"
proof (cases "fs = []")
  case True
  assume "isUploadModalOpen (handleUploadAndStartChat s fs now cres resp qres)"
  with True show ?thesis by (simp add: handleUploadAndStartChat_def)
next
  case ne: False
  assume a: "isUploadModalOpen (handleUploadAndStartChat s fs now cres resp qres)"
  show ?thesis
  proof (cases "allSucceed cres resp qres (length fs)")
    case True
    with ne a upload_commit(5) [of fs cres resp qres s now] show ?thesis by simp
  next
    case False
    with a upload_abort(5) [of cres resp qres fs s now] show ?thesis by simp
  qed
qed

lemma googleSession_fields:
  "searchSource googleSession = GoogleSearch"
  "status googleSession = Chatting"
  "chatHistory googleSession = []"
  "activeRagStoreName googleSession = None"
  by (simp_all add: googleSession_def handleSwitchSource_def switchSourceStart_def switchSourceSettle_def
        handleEndChat_def mounted_def initialState_def issue_def Let_def)

lemma documentSession_fields:
  "activeRagStoreName documentSession = Some ''fileSearchStores/s1''"
  "documentName documentSession = ''a.pdf & b.pdf''"
  "chatHistory documentSession = []"
  "exampleQuestions documentSession = [''What is covered?'']"
  "searchSource documentSession = FileSearch"
  "isUploadModalOpen documentSession = False"
proof -
  have ok: "allSucceed (Inr ''fileSearchStores/s1'') (\<lambda>i. Inr ()) (Inr [''What is covered?''])
              (length [pdf ''a.pdf'', pdf ''b.pdf''])"
    by (simp add: allSucceed_def list_all_iff)
  have ne: "[pdf ''a.pdf'', pdf ''b.pdf''] \<noteq> []" by simp
  have m: "searchSource (handleFileSearchClick mounted None) = FileSearch"
    by (simp add: handleFileSearchClick_def mounted_def initialState_def issue_def)
  show "activeRagStoreName documentSession = Some ''fileSearchStores/s1''"
    unfolding documentSession_def using upload_commit(1) [OF ne ok] by simp
  show "documentName documentSession = ''a.pdf & b.pdf''"
    unfolding documentSession_def using upload_commit(2) [OF ne ok]
    by (simp add: docName_def pdf_def)
  show "chatHistory documentSession = []"
    unfolding documentSession_def using upload_commit(3) [OF ne ok] by simp
  show "exampleQuestions documentSession = [''What is covered?'']"
    unfolding documentSession_def using upload_commit(4) [OF ne ok] by simp
  show "searchSource documentSession = FileSearch"
    unfolding documentSession_def using upload_commit(6) [OF ne ok] m by simp
  show "isUploadModalOpen documentSession = False"
    unfolding documentSession_def using upload_commit(5) [OF ne ok] by simp
qed

lemma keyedGoogle_fields:
  "searchSource keyedGoogle = GoogleSearch"
  "isApiKeySelected keyedGoogle = True"
  "status keyedGoogle = Chatting"
  "activeRagStoreName keyedGoogle = None"
  by (simp_all add: keyedGoogle_def handleSwitchSource_keyed_def mounted_keyed_def checkApiKey_def
        initialState_keyed_def switchSourceSettle_def handleEndChat_def issue_def Let_def)

section \<open>The handle invariant in \<open>src/App.tsx\<close>\<close>

text \<open>
  In \<open>src/App.tsx\<close> the upload modal is opened by \<open>handleFileSearchClick\<close> only, which
  first ends a session that has a handle or is in the \<open>GoogleSearch\<close> mode. Every state
  reachable through the rendered controls therefore has a handle only in the
  \<open>FileSearch\<close> mode.
\<close>

lemma reachable_modeInvariant:
  "reachable s \<Longrightarrow> modeInvariant s"
proof (induction rule: reachable.induct)
  case r_mount
  show ?case by (simp add: modeInvariant_def mounted_def initialState_def issue_def)
next
  case (r_send s msg res)
  then show ?case by (simp add: modeInvariant_def handleSendMessage_fields)
next
  case (r_newChat s del)
  then show ?case by (simp add: modeInvariant_def handleEndChat_fields)
next
  case (r_switch s src del qres)
  then show ?case
    by (simp add: modeInvariant_def handleSwitchSource_fields chatEnabled_def)
next
  case (r_fileSearchClick s del)
  then show ?case by (simp add: modeInvariant_def handleFileSearchClick_fields)
next
  case (r_upload s fs now cres resp qres)
  then have "searchSource s = FileSearch" by (simp add: modeInvariant_def modalEnabled_def)
  then show ?case by (simp add: modeInvariant_def upload_mode)
next
  case (r_close s)
  then show ?case by (simp add: modeInvariant_def onClose_def)
next
  case (r_clearError s)
  then show ?case by (simp add: modeInvariant_def clearError_def)
next
  case (r_unload s del)
  then show ?case by (simp add: modeInvariant_def handleUnload_fields)
qed

section \<open>The handle invariant in the version with API-key selection\<close>

text \<open>
  C1. In every reachable state the index handle \<open>activeRagStoreName\<close> is non-null if and
  only if the mode is \<open>FileSearch\<close> and an index has been created by a completed start
  sequence and not yet torn down. In \<open>src/unnamed/part_000\<close> the control
  \<open>onFileSearchClick\<close> only opens the modal, so after a switch to \<open>GoogleSearch\<close> a
  completed start sequence leaves a handle in the \<open>GoogleSearch\<close> mode.
\<close>

theorem keyed_upload_in_web_mode:
  "activeRagStoreName keyedUploaded = Some ''fileSearchStores/s1''
   \<and> searchSource keyedUploaded = GoogleSearch
   \<and> searchSource keyedUploaded \<noteq> FileSearch"
proof -
  have ok: "allSucceed (Inr ''fileSearchStores/s1'') (\<lambda>i. Inr ()) (Inr [''What is covered?''])
              (length [pdf ''a.pdf''])"
    by (simp add: allSucceed_def list_all_iff)
  obtain s' t where st: "startSequence [pdf ''a.pdf''] 1700000000000
       (Inr ''fileSearchStores/s1'') (\<lambda>i. Inr ()) (Inr [''What is covered?''])
       ((onFileSearchClick_keyed keyedGoogle)
          \<lparr>status := Uploading,
           uploadProgress := Some \<lparr>current = 0, total = length [pdf ''a.pdf''] + 2,
              message = Some ''Creating document index...'', fileName = None\<rparr>\<rparr>) = (s', t)"
    by (cases "startSequence [pdf ''a.pdf''] 1700000000000
       (Inr ''fileSearchStores/s1'') (\<lambda>i. Inr ()) (Inr [''What is covered?''])
       ((onFileSearchClick_keyed keyedGoogle)
          \<lparr>status := Uploading,
           uploadProgress := Some \<lparr>current = 0, total = length [pdf ''a.pdf''] + 2,
              message = Some ''Creating document index...'', fileName = None\<rparr>\<rparr>)")
  from startSequence_pair [OF st] ok
  have t: "t = None" and h: "activeRagStoreName s' = Some ''fileSearchStores/s1''"
    and m: "searchSource s' = GoogleSearch"
    by (simp_all add: onFileSearchClick_keyed_def keyedGoogle_fields)
  have k: "keyedUploaded = (s'\<lparr>uploadProgress := None\<rparr>)\<lparr>status := Chatting\<rparr>"
    using st t
    by (simp add: keyedUploaded_def handleUploadAndStartChat_keyed_def Let_def
          onFileSearchClick_keyed_def keyedGoogle_fields)
  from h m show ?thesis unfolding k by simp
qed

section \<open>The session label\<close>

text \<open>
  C2. For every non-empty file list, the label that a fully successful
  \<open>handleUploadAndStartChat\<close> stores in \<open>documentName\<close> is the name of the file when
  there is one file, the first name, \<open>'' & ''\<close> and the second name when there are two,
  and the decimal count followed by \<open>'' documents''\<close> when there are three or more.
\<close>

theorem session_label:
  assumes "fs \<noteq> []" and "allSucceed cres resp qres (length fs)"
  shows "documentName (handleUploadAndStartChat s fs now cres resp qres) =
           (case fs of
              [f] \<Rightarrow> name f
            | [f, g] \<Rightarrow> name f @ '' & '' @ name g
            | _ \<Rightarrow> stringOfNat (length fs) @ '' documents'')"
proof -
  from assms have "documentName (handleUploadAndStartChat s fs now cres resp qres) = docName fs"
    by (rule upload_commit(2))
  also from assms(1) have "docName fs =
           (case fs of
              [f] \<Rightarrow> name f
            | [f, g] \<Rightarrow> name f @ '' & '' @ name g
            | _ \<Rightarrow> stringOfNat (length fs) @ '' documents'')"
    by (auto simp add: docName_def split: list.splits)
  finally show ?thesis .
qed

theorem session_label_witness:
  "[pdf ''a.pdf''] \<noteq> []
   \<and> allSucceed (Inr ''stores/s1'') (\<lambda>i. Inr ()) (Inr [''What is it?'']) 3
   \<and> documentName (handleUploadAndStartChat mounted [pdf ''a.pdf''] 1700000000000
        (Inr ''stores/s1'') (\<lambda>i. Inr ()) (Inr [''What is it?''])) = ''a.pdf''
   \<and> documentName (handleUploadAndStartChat mounted [pdf ''a.pdf'', pdf ''b.pdf''] 1700000000000
        (Inr ''stores/s1'') (\<lambda>i. Inr ()) (Inr [''What is it?''])) = ''a.pdf & b.pdf''
   \<and> documentName (handleUploadAndStartChat mounted
        [pdf ''a.pdf'', pdf ''b.pdf'', pdf ''c.pdf''] 1700000000000
        (Inr ''stores/s1'') (\<lambda>i. Inr ()) (Inr [''What is it?''])) = ''3 documents''"
proof -
  have ok: "\<And>n. allSucceed (Inr ''stores/s1'') (\<lambda>i. Inr ()) (Inr [''What is it?'']) n"
    by (simp add: allSucceed_def list_all_iff)
  have d: "stringOfNat (Suc (Suc (Suc 0))) = ''3''"
    by (simp add: stringOfNat.simps digitChar_def)
  show ?thesis
    using ok [of 3]
      session_label [of "[pdf ''a.pdf'']", OF _ ok, of mounted 1700000000000]
      session_label [of "[pdf ''a.pdf'', pdf ''b.pdf'']", OF _ ok, of mounted 1700000000000]
      session_label [of "[pdf ''a.pdf'', pdf ''b.pdf'', pdf ''c.pdf'']", OF _ ok,
        of mounted 1700000000000]
    by (simp add: pdf_def d)
qed

section \<open>Sending a query\<close>

text \<open>
  C3. In every state with mode \<open>FileSearch\<close> and no index handle, \<open>handleSendMessage\<close>
  returns the state it was given: the transcript, the calls issued on the remote
  service and every other field are unchanged.
\<close>

theorem send_without_index_noop:
  assumes "searchSource s = FileSearch" and "activeRagStoreName s = None"
  shows "handleSendMessage s msg res = s"
  using assms by (simp add: handleSendMessage_def)

theorem send_without_index_noop_witness:
  "searchSource mounted = FileSearch \<and> activeRagStoreName mounted = None
   \<and> handleSendMessage mounted ''What is covered?'' (Inl (ErrorInstance ''offline'')) = mounted
   \<and> remoteCalls (handleSendMessage mounted ''What is covered?'' (Inr (QueryResult ''x'' None)))
       = [Initialize]
   \<and> chatHistory (handleSendMessage mounted ''What is covered?'' (Inr (QueryResult ''x'' None))) = []"
proof -
  have a: "searchSource mounted = FileSearch" and b: "activeRagStoreName mounted = None"
    by (simp_all add: mounted_def initialState_def issue_def)
  have c: "remoteCalls mounted = [Initialize]" "chatHistory mounted = []"
    by (simp_all add: mounted_def initialState_def issue_def)
  show ?thesis
    using a b c send_without_index_noop [OF a b, of "''What is covered?''" "Inl (ErrorInstance ''offline'')"]
      send_without_index_noop [OF a b, of "''What is covered?''" "Inr (QueryResult ''x'' None)"]
    by simp
qed

text \<open>
  C4, as the code has it. A query whose remote call fails leaves the status \<open>Error\<close>
  with the error string \<open>Failed to get response\<close> (and the detail of the value thrown),
  the placeholder appended to the transcript after the user's message and the loading
  flag cleared; \<open>clearError\<close> then returns to \<open>Chatting\<close> with that transcript, the
  handle and the mode unchanged.
\<close>

theorem failed_query_error_status:
  assumes "queryIssued s"
  shows "status (handleSendMessage s msg (Inl err)) = Error
       \<and> error (handleSendMessage s msg (Inl err)) =
           Some (''Failed to get response'' @ (if truthy err then '': '' @ errText err else []))
       \<and> chatHistory (handleSendMessage s msg (Inl err)) = chatHistory s @ [userMessage msg, errorMessage]
       \<and> isQueryLoading (handleSendMessage s msg (Inl err)) = False
       \<and> status (clearError (handleSendMessage s msg (Inl err))) = Chatting
       \<and> chatHistory (clearError (handleSendMessage s msg (Inl err))) =
           chatHistory s @ [userMessage msg, errorMessage]
       \<and> activeRagStoreName (clearError (handleSendMessage s msg (Inl err))) = activeRagStoreName s
       \<and> searchSource (clearError (handleSendMessage s msg (Inl err))) = searchSource s"
  using assms
  by (auto simp add: handleSendMessage_def queryIssued_def Let_def handleError_fields issue_fields
        clearError_def)

theorem failed_query_error_status_witness:
  "queryIssued googleSession
   \<and> status (handleSendMessage googleSession ''hello'' (Inl (ErrorInstance ''503''))) = Error
   \<and> error (handleSendMessage googleSession ''hello'' (Inl (ErrorInstance ''503''))) =
        Some ''Failed to get response: 503''
   \<and> status (clearError (handleSendMessage googleSession ''hello'' (Inl (ErrorInstance ''503''))))
        = Chatting"
proof -
  have q: "queryIssued googleSession"
    by (simp add: queryIssued_def googleSession_fields)
  from failed_query_error_status [OF q, of "''hello''" "ErrorInstance ''503''"] q
  show ?thesis by simp
qed

text \<open>
  C4 as stated, that a failed query falls back to the ready state and not to an error
  state, fails: from a web-grounded session in the status \<open>Chatting\<close> a failed query
  ends in the status \<open>Error\<close>.
\<close>

theorem failed_query_status_counterexample:
  "queryIssued googleSession
   \<and> status googleSession = Chatting
   \<and> status (handleSendMessage googleSession ''hello'' (Inl (ErrorInstance ''503''))) = Error
   \<and> status (handleSendMessage googleSession ''hello'' (Inl (ErrorInstance ''503''))) \<noteq> Chatting"
  by (simp add: queryIssued_def googleSession_fields handleSendMessage_def Let_def
        handleError_fields)

text \<open>
  C5. For every query whose remote call fails, the transcript afterwards is the
  transcript before, followed by the user's message and the error placeholder of the
  model, in that order: two more messages, the earlier ones unchanged.
\<close>

theorem failed_query_appends_two:
  assumes "queryIssued s"
  shows "chatHistory (handleSendMessage s msg (Inl err)) = chatHistory s @ [userMessage msg, errorMessage]
       \<and> length (chatHistory (handleSendMessage s msg (Inl err))) = length (chatHistory s) + 2
       \<and> take (length (chatHistory s)) (chatHistory (handleSendMessage s msg (Inl err))) = chatHistory s
       \<and> role (userMessage msg) = User \<and> parts (userMessage msg) = [msg]
       \<and> role errorMessage = Model"
  using assms
  by (auto simp add: handleSendMessage_def queryIssued_def Let_def handleError_fields issue_fields
        userMessage_def errorMessage_def)

theorem failed_query_appends_two_witness:
  "queryIssued googleSession
   \<and> chatHistory (handleSendMessage googleSession ''hello'' (Inl (ErrorInstance ''503''))) =
       [\<lparr>role = User, parts = [''hello''], groundingChunks = None\<rparr>,
        \<lparr>role = Model, parts = [''Sorry, I encountered an error. Please try again.''],
         groundingChunks = None\<rparr>]"
proof -
  have q: "queryIssued googleSession"
    by (simp add: queryIssued_def googleSession_fields)
  from failed_query_appends_two [OF q, of "''hello''" "ErrorInstance ''503''"] q
  show ?thesis
    by (simp add: googleSession_fields userMessage_def errorMessage_def)
qed

section \<open>Ending a session\<close>

text \<open>
  C6. After \<open>handleEndChat\<close> the session is idle (no handle, empty transcript, no
  suggested questions, empty document label) whether the remote deletion resolves or
  rejects. A rejection adds a line to the console and nothing else: the status is
  \<open>Chatting\<close>, the error string is untouched, and the state is the one of a deletion
  that resolved but for that line.
\<close>

theorem end_session_idle:
  "idle (handleEndChat s del)
   \<and> status (handleEndChat s del) = Chatting
   \<and> error (handleEndChat s del) = error s
   \<and> handleEndChat s (Some err) =
       (handleEndChat s None)
         \<lparr>consoleErrors := consoleErrors s @
            (if truthyName (activeRagStoreName s)
             then [(''Failed to delete RAG store in background'', err)] else [])\<rparr>"
  by (simp add: idle_def handleEndChat_fields)
     (simp add: handleEndChat_def Let_def issue_def consoleError_def split: option.splits)

theorem end_session_idle_witness:
  "idle (handleEndChat documentSession (Some (ErrorInstance ''403'')))
   \<and> \<not> idle documentSession
   \<and> status (handleEndChat documentSession (Some (ErrorInstance ''403''))) = Chatting
   \<and> consoleErrors (handleEndChat documentSession (Some (ErrorInstance ''403''))) =
       consoleErrors (handleEndChat documentSession None)
         @ [(''Failed to delete RAG store in background'', ErrorInstance ''403'')]"
proof -
  note t = end_session_idle [of documentSession "Some (ErrorInstance ''403'')" "ErrorInstance ''403''"]
  from t have a: "idle (handleEndChat documentSession (Some (ErrorInstance ''403'')))"
    by (rule conjunct1)
  from t have b: "status (handleEndChat documentSession (Some (ErrorInstance ''403''))) = Chatting"
    by blast
  have c: "\<not> idle documentSession"
    by (simp add: idle_def documentSession_fields)
  have d: "consoleErrors (handleEndChat documentSession (Some (ErrorInstance ''403''))) =
       consoleErrors (handleEndChat documentSession None)
         @ [(''Failed to delete RAG store in background'', ErrorInstance ''403'')]"
    by (simp add: handleEndChat_console documentSession_fields)
  from a b c d show ?thesis by blast
qed

text \<open>
  C9. \<open>handleEndChat\<close>, in both versions of \<open>App\<close>, always leaves the mode
  \<open>FileSearch\<close>, also when the session ended was in the \<open>GoogleSearch\<close> mode.
\<close>

theorem end_session_resets_mode:
  "searchSource (handleEndChat s del) = FileSearch
   \<and> searchSource (handleEndChat s del) \<noteq> GoogleSearch"
  by (simp add: handleEndChat_fields)

theorem end_session_resets_mode_witness:
  "searchSource googleSession = GoogleSearch
   \<and> searchSource (handleEndChat googleSession None) = FileSearch
   \<and> searchSource keyedGoogle = GoogleSearch
   \<and> searchSource (handleEndChat keyedGoogle (Some (ErrorInstance ''403''))) = FileSearch"
  using end_session_resets_mode [of googleSession None]
    end_session_resets_mode [of keyedGoogle "Some (ErrorInstance ''403'')"]
  by (simp add: googleSession_fields keyedGoogle_fields)

section \<open>Switching the mode\<close>

text \<open>
  C7. For every switch to a different mode: when \<open>handleSwitchSource\<close> reaches its
  \<open>await\<close> the transcript and the suggested questions are empty, the handle is null
  and the mode is the new one; the deletion of a non-empty handle has been requested,
  before the request for new suggested questions, which is issued only for
  \<open>GoogleSearch\<close>. Once the handler has finished the transcript is empty, the handle
  null and the mode the new one; the suggested questions are the fetched ones, or none
  if the fetch failed or the new mode is \<open>FileSearch\<close>.
\<close>

theorem switch_mode_clears:
  assumes "src \<noteq> searchSource s"
  shows "chatHistory (switchSourceStart s src del) = []
       \<and> exampleQuestions (switchSourceStart s src del) = []
       \<and> activeRagStoreName (switchSourceStart s src del) = None
       \<and> searchSource (switchSourceStart s src del) = src
       \<and> remoteCalls (switchSourceStart s src del) =
           remoteCalls s
           @ (case activeRagStoreName s of
                None \<Rightarrow> []
              | Some h \<Rightarrow> if h \<noteq> [] then [DeleteRagStore h] else [])
           @ (if src = GoogleSearch then [GenerateGoogleSearchQuestions] else [])
       \<and> chatHistory (handleSwitchSource s src del qres) = []
       \<and> activeRagStoreName (handleSwitchSource s src del qres) = None
       \<and> searchSource (handleSwitchSource s src del qres) = src
       \<and> exampleQuestions (handleSwitchSource s src del qres) =
           (if src = GoogleSearch then (case qres of Inr qs \<Rightarrow> qs | Inl e \<Rightarrow> []) else [])
       \<and> remoteCalls (handleSwitchSource s src del qres) = remoteCalls (switchSourceStart s src del)"
  using assms
  by (auto simp add: handleSwitchSource_def switchSourceStart_def switchSourceSettle_def Let_def
        handleEndChat_fields handleEndChat_calls issue_fields consoleError_fields
        split: sum.splits option.splits)

theorem switch_mode_clears_witness:
  "GoogleSearch \<noteq> searchSource documentSession
   \<and> activeRagStoreName documentSession = Some ''fileSearchStores/s1''
   \<and> remoteCalls (switchSourceStart documentSession GoogleSearch None) =
       remoteCalls documentSession
         @ [DeleteRagStore ''fileSearchStores/s1'', GenerateGoogleSearchQuestions]
   \<and> exampleQuestions (switchSourceStart documentSession GoogleSearch None) = []
   \<and> activeRagStoreName (handleSwitchSource documentSession GoogleSearch None (Inr [''News?''])) = None
   \<and> searchSource (handleSwitchSource documentSession GoogleSearch None (Inr [''News?''])) = GoogleSearch
   \<and> chatHistory (handleSwitchSource documentSession GoogleSearch None (Inr [''News?''])) = []
   \<and> exampleQuestions (handleSwitchSource documentSession GoogleSearch None (Inr [''News?''])) = [''News?'']"
proof -
  have h: "GoogleSearch \<noteq> searchSource documentSession"
    by (simp add: documentSession_fields)
  from switch_mode_clears [OF h, of None "Inr [''News?'']"] h show ?thesis
    by (simp add: documentSession_fields)
qed

section \<open>Starting a document session\<close>

text \<open>
  C8. For a non-empty file list, \<open>handleUploadAndStartChat\<close> sets the handle and the
  document label and empties the transcript when the index creation, every upload and
  the question generation all resolve. If any of them rejects, the handle, the
  transcript and the document label are those of the state before, and no call is
  issued after the one that failed.
\<close>

theorem start_session_commit_or_abort:
  assumes "fs \<noteq> []"
  shows "(\<forall>h. cres = Inr h \<and> allSucceed cres resp qres (length fs) \<longrightarrow>
            activeRagStoreName (handleUploadAndStartChat s fs now cres resp qres) = Some h
            \<and> documentName (handleUploadAndStartChat s fs now cres resp qres) = docName fs
            \<and> chatHistory (handleUploadAndStartChat s fs now cres resp qres) = [])
       \<and> (\<not> allSucceed cres resp qres (length fs) \<longrightarrow>
            activeRagStoreName (handleUploadAndStartChat s fs now cres resp qres) = activeRagStoreName s
            \<and> chatHistory (handleUploadAndStartChat s fs now cres resp qres) = chatHistory s
            \<and> documentName (handleUploadAndStartChat s fs now cres resp qres) = documentName s)
       \<and> remoteCalls (handleUploadAndStartChat s fs now cres resp qres) =
            remoteCalls s @ startCalls fs now cres resp"
proof (intro conjI allI impI)
  fix h assume a: "cres = Inr h \<and> allSucceed cres resp qres (length fs)"
  then have ok: "allSucceed cres resp qres (length fs)" by blast
  from a have c: "projr cres = h" by auto
  from upload_commit(1) [OF assms ok] c
  show "activeRagStoreName (handleUploadAndStartChat s fs now cres resp qres) = Some h" by simp
  from upload_commit(2) [OF assms ok]
  show "documentName (handleUploadAndStartChat s fs now cres resp qres) = docName fs" .
  from upload_commit(3) [OF assms ok]
  show "chatHistory (handleUploadAndStartChat s fs now cres resp qres) = []" .
next
  assume n: "\<not> allSucceed cres resp qres (length fs)"
  from upload_abort(1) [OF n]
  show "activeRagStoreName (handleUploadAndStartChat s fs now cres resp qres) = activeRagStoreName s" .
  from upload_abort(3) [OF n]
  show "chatHistory (handleUploadAndStartChat s fs now cres resp qres) = chatHistory s" .
  from upload_abort(2) [OF n]
  show "documentName (handleUploadAndStartChat s fs now cres resp qres) = documentName s" .
next
  from upload_calls [OF assms]
  show "remoteCalls (handleUploadAndStartChat s fs now cres resp qres) =
            remoteCalls s @ startCalls fs now cres resp" .
qed

theorem start_session_commit_or_abort_witness:
  "[pdf ''a.pdf'', pdf ''b.pdf'', pdf ''c.pdf''] \<noteq> []
   \<and> \<not> allSucceed (Inr ''fileSearchStores/s2'') secondUploadFails (Inr [''Q?'']) 3
   \<and> activeRagStoreName (handleUploadAndStartChat documentSession
        [pdf ''a.pdf'', pdf ''b.pdf'', pdf ''c.pdf''] 1700000000000
        (Inr ''fileSearchStores/s2'') secondUploadFails (Inr [''Q?''])) = Some ''fileSearchStores/s1''
   \<and> documentName (handleUploadAndStartChat documentSession
        [pdf ''a.pdf'', pdf ''b.pdf'', pdf ''c.pdf''] 1700000000000
        (Inr ''fileSearchStores/s2'') secondUploadFails (Inr [''Q?''])) = ''a.pdf & b.pdf''
   \<and> remoteCalls (handleUploadAndStartChat documentSession
        [pdf ''a.pdf'', pdf ''b.pdf'', pdf ''c.pdf''] 1700000000000
        (Inr ''fileSearchStores/s2'') secondUploadFails (Inr [''Q?''])) =
       remoteCalls documentSession @
         [CreateRagStore ''chat-session-1700000000000'',
          UploadToRagStore ''fileSearchStores/s2'' (pdf ''a.pdf''),
          UploadToRagStore ''fileSearchStores/s2'' (pdf ''b.pdf'')]
   \<and> allSucceed (Inr ''fileSearchStores/s2'') (\<lambda>i. Inr ()) (Inr [''Q?'']) 3
   \<and> activeRagStoreName (handleUploadAndStartChat documentSession
        [pdf ''a.pdf'', pdf ''b.pdf'', pdf ''c.pdf''] 1700000000000
        (Inr ''fileSearchStores/s2'') (\<lambda>i. Inr ()) (Inr [''Q?''])) = Some ''fileSearchStores/s2''"
proof -
  have ne: "[pdf ''a.pdf'', pdf ''b.pdf'', pdf ''c.pdf''] \<noteq> []" by simp
  have bad: "\<not> allSucceed (Inr ''fileSearchStores/s2'') secondUploadFails (Inr [''Q?'']) 3"
    by (simp add: allSucceed_def secondUploadFails_def list_all_iff)
  have ok: "allSucceed (Inr ''fileSearchStores/s2'') (\<lambda>i. Inr ()) (Inr [''Q?'']) 3"
    by (simp add: allSucceed_def list_all_iff)
  have n: "stringOfNat 1700000000000 = ''1700000000000''"
    by (simp add: stringOfNat.simps digitChar_def)
  have calls: "startCalls [pdf ''a.pdf'', pdf ''b.pdf'', pdf ''c.pdf''] 1700000000000
        (Inr ''fileSearchStores/s2'') secondUploadFails =
         [CreateRagStore ''chat-session-1700000000000'',
          UploadToRagStore ''fileSearchStores/s2'' (pdf ''a.pdf''),
          UploadToRagStore ''fileSearchStores/s2'' (pdf ''b.pdf'')]"
    by (simp add: startCalls_def uploadsAttempted_def secondUploadFails_def n)
  have bad': "\<not> allSucceed (Inr ''fileSearchStores/s2'') secondUploadFails (Inr [''Q?''])
                 (length [pdf ''a.pdf'', pdf ''b.pdf'', pdf ''c.pdf''])"
    by (simp add: allSucceed_def secondUploadFails_def list_all_iff)
  have ok': "allSucceed (Inr ''fileSearchStores/s2'') (\<lambda>i. Inr ()) (Inr [''Q?''])
               (length [pdf ''a.pdf'', pdf ''b.pdf'', pdf ''c.pdf''])"
    by (simp add: allSucceed_def list_all_iff)
  note t1 = start_session_commit_or_abort [OF ne, of "Inr ''fileSearchStores/s2''" secondUploadFails
         "Inr [''Q?'']" documentSession 1700000000000]
  note t2 = start_session_commit_or_abort [OF ne, of "Inr ''fileSearchStores/s2''" "\<lambda>i. Inr ()"
         "Inr [''Q?'']" documentSession 1700000000000]
  from t1 bad' have f1: "activeRagStoreName (handleUploadAndStartChat documentSession
        [pdf ''a.pdf'', pdf ''b.pdf'', pdf ''c.pdf''] 1700000000000
        (Inr ''fileSearchStores/s2'') secondUploadFails (Inr [''Q?''])) = activeRagStoreName documentSession"
    and f2: "documentName (handleUploadAndStartChat documentSession
        [pdf ''a.pdf'', pdf ''b.pdf'', pdf ''c.pdf''] 1700000000000
        (Inr ''fileSearchStores/s2'') secondUploadFails (Inr [''Q?''])) = documentName documentSession"
    by blast+
  from t1 have f3: "remoteCalls (handleUploadAndStartChat documentSession
        [pdf ''a.pdf'', pdf ''b.pdf'', pdf ''c.pdf''] 1700000000000
        (Inr ''fileSearchStores/s2'') secondUploadFails (Inr [''Q?''])) =
       remoteCalls documentSession @ startCalls [pdf ''a.pdf'', pdf ''b.pdf'', pdf ''c.pdf'']
         1700000000000 (Inr ''fileSearchStores/s2'') secondUploadFails"
    by blast
  from t2 ok' have f4: "activeRagStoreName (handleUploadAndStartChat documentSession
        [pdf ''a.pdf'', pdf ''b.pdf'', pdf ''c.pdf''] 1700000000000
        (Inr ''fileSearchStores/s2'') (\<lambda>i. Inr ()) (Inr [''Q?''])) = Some ''fileSearchStores/s2''"
    by blast
  from ne bad ok f1 f2 f3 f4 show ?thesis
    by (simp only: calls documentSession_fields simp_thms)
qed

section \<open>Closing the upload modal\<close>

text \<open>
  C10. While \<open>uploadProgress\<close> is non-null, closing the upload modal changes nothing:
  the modal stays open and the selected files are kept. When no upload is in progress,
  closing empties the file list and closes the modal.
\<close>

theorem close_during_upload_noop:
  "(uploadProgress s \<noteq> None \<longrightarrow> modalClose (m, s) = (m, s))
   \<and> (uploadProgress s = None \<longrightarrow>
        modalClose (m, s) = (m\<lparr>files := []\<rparr>, s\<lparr>isUploadModalOpen := False\<rparr>))"
  by (simp add: modalClose_def handleClose_def onClose_def)

theorem close_during_upload_noop_witness:
  "uploadProgress uploading \<noteq> None
   \<and> isUploadModalOpen uploading
   \<and> modalClose (picked, uploading) = (picked, uploading)
   \<and> uploadProgress (handleFileSearchClick mounted None) = None
   \<and> files (fst (modalClose (picked, handleFileSearchClick mounted None))) = []
   \<and> \<not> isUploadModalOpen (snd (modalClose (picked, handleFileSearchClick mounted None)))"
proof -
  have a: "uploadProgress uploading \<noteq> None" "isUploadModalOpen uploading"
    by (simp_all add: uploading_def handleFileSearchClick_def)
  have b: "uploadProgress (handleFileSearchClick mounted None) = None"
    by (simp add: handleFileSearchClick_def mounted_def initialState_def issue_def)
  from close_during_upload_noop [of uploading picked]
       close_during_upload_noop [of "handleFileSearchClick mounted None" picked] a b
  show ?thesis by simp
qed

end
